theory Spec2Isabelle
  imports Main
begin

section \<open>Python strings\<close>

text \<open>
  A Python \<open>str\<close> is modelled as a \<open>string\<close>: one \<open>char\<close> per code point, which
  restricts the model to code points below 256. The functions of this section are the
  \<open>str\<close> operations that \<open>_error.py\<close> uses.
\<close>

fun startswith :: "string \<Rightarrow> string \<Rightarrow> bool" where
  "startswith [] s = True"
| "startswith (p # ps) [] = False"
| "startswith (p # ps) (c # cs) = (p = c \<and> startswith ps cs)"

text \<open>\<open>sub in s\<close>, which is also \<open>s.find(sub) != -1\<close>.\<close>

fun str_in :: "string \<Rightarrow> string \<Rightarrow> bool" where
  "str_in sub [] = (sub = [])"
| "str_in sub (c # cs) = (startswith sub (c # cs) \<or> str_in sub cs)"

text \<open>
  \<open>str.lower\<close> on code points below 256: the ASCII capitals and the Latin-1 capitals
  (U+00C0 to U+00DE without the multiplication sign U+00D7) move up by 32.
\<close>

definition lower_char :: "char \<Rightarrow> char" where
  "lower_char c =
     (let n = (of_char c :: nat)
      in if (65 \<le> n \<and> n \<le> 90) \<or> (192 \<le> n \<and> n \<le> 222 \<and> n \<noteq> 215)
         then char_of (n + 32) else c)"

definition lower :: "string \<Rightarrow> string" where
  "lower s = map lower_char s"

text \<open>\<open>sep.join(parts)\<close>.\<close>

fun join :: "string \<Rightarrow> string list \<Rightarrow> string" where
  "join sep [] = []"
| "join sep [p] = p"
| "join sep (p # q # ps) = p @ sep @ join sep (q # ps)"

section \<open>Values\<close>

text \<open>
  The values that reach the error path: \<open>None\<close>, strings and what \<open>json.loads\<close>
  returns (floats are left out), and the element trees of \<open>xml.etree.ElementTree\<close>
  (tag, text, children; attributes and tails play no part). A \<open>PDict\<close> lists its
  items in insertion order; the keys of a dictionary are distinct.
\<close>

datatype pyval =
    PNone
  | PBool bool
  | PInt int
  | PStr string
  | PList "pyval list"
  | PDict "(string \<times> pyval) list"

datatype element =
  Element (el_tag: string) (el_text: "string option") (el_children: "element list")

datatype exn = AttributeError | TypeError | KeyError | IndexError | ValueError string

text \<open>The truth value of an object, as \<open>if error_body:\<close> reads it.\<close>

fun truthy :: "pyval \<Rightarrow> bool" where
  "truthy PNone = False"
| "truthy (PBool b) = b"
| "truthy (PInt n) = (n \<noteq> 0)"
| "truthy (PStr s) = (s \<noteq> [])"
| "truthy (PList xs) = (xs \<noteq> [])"
| "truthy (PDict kvs) = (kvs \<noteq> [])"

text \<open>\<open>v[key]\<close> for a string key: only a dictionary can be indexed by a string.\<close>

fun py_getitem :: "pyval \<Rightarrow> string \<Rightarrow> exn + pyval" where
  "py_getitem (PDict kvs) key =
     (case map_of kvs key of None \<Rightarrow> Inl KeyError | Some v \<Rightarrow> Inr v)"
| "py_getitem v key = Inl TypeError"

text \<open>
  What \<open>for info in v\<close> runs through: the keys of a dictionary, the items of a list,
  the characters of a string; anything else is not iterable.
\<close>

fun py_iter :: "pyval \<Rightarrow> exn + pyval list" where
  "py_iter (PDict kvs) = Inr (map (\<lambda>kv. PStr (fst kv)) kvs)"
| "py_iter (PList xs) = Inr xs"
| "py_iter (PStr s) = Inr (map (\<lambda>c. PStr [c]) s)"
| "py_iter v = Inl TypeError"

text \<open>
  \<open>v += s\<close> for a string \<open>s\<close>: concatenation on a string, extension by the characters
  of \<open>s\<close> on a list, and a \<open>TypeError\<close> on everything else (\<open>None\<close> among them).
\<close>

fun py_iadd_str :: "pyval \<Rightarrow> string \<Rightarrow> exn + pyval" where
  "py_iadd_str (PStr m) s = Inr (PStr (m @ s))"
| "py_iadd_str (PList xs) s = Inr (PList (xs @ map (\<lambda>c. PStr [c]) s))"
| "py_iadd_str v s = Inl TypeError"

text \<open>\<open>d[k] = v\<close> on a dictionary: a key already present keeps its place.\<close>

fun dict_setitem :: "'k \<Rightarrow> 'v \<Rightarrow> ('k \<times> 'v) list \<Rightarrow> ('k \<times> 'v) list" where
  "dict_setitem k v [] = [(k, v)]"
| "dict_setitem k v ((k', v') # d) =
     (if k' = k then (k, v) # d else (k', v') # dict_setitem k v d)"

text \<open>A \<open>for\<close> loop whose body may raise: the first exception ends it.\<close>

fun for_loop :: "('a \<Rightarrow> 's \<Rightarrow> exn + 's) \<Rightarrow> 'a list \<Rightarrow> 's \<Rightarrow> exn + 's" where
  "for_loop body [] s = Inr s"
| "for_loop body (x # xs) s =
     (case body x s of Inl e \<Rightarrow> Inl e | Inr s' \<Rightarrow> for_loop body xs s')"

subsection \<open>str() and repr()\<close>

definition hex_digit :: "nat \<Rightarrow> char" where
  "hex_digit d = (if d < 10 then char_of (48 + d) else char_of (87 + d))"

fun str_of_nat :: "nat \<Rightarrow> string" where
  "str_of_nat n =
     (if n < 10 then [hex_digit n] else str_of_nat (n div 10) @ [hex_digit (n mod 10)])"

declare str_of_nat.simps [simp del]

definition str_of_int :: "int \<Rightarrow> string" where
  "str_of_int i = (if i < 0 then CHR ''-'' # str_of_nat (nat (- i)) else str_of_nat (nat i))"

text \<open>
  \<open>repr\<close> of a string: in double quotes when it holds a single quote and no double
  quote, in single quotes otherwise; the quote and the backslash are escaped, tab, line
  feed and carriage return are written \<open>\t\<close>, \<open>\n\<close>, \<open>\r\<close>, and the other code points
  that are not printable (below 32, 127 to 160, 173) as \<open>\xNN\<close>.
\<close>

definition repr_char :: "char \<Rightarrow> char \<Rightarrow> string" where
  "repr_char quote c =
     (let n = (of_char c :: nat)
      in if c = quote \<or> n = 92 then [CHR 0x5C, c]
         else if n = 9 then [CHR 0x5C, CHR ''t'']
         else if n = 10 then [CHR 0x5C, CHR ''n'']
         else if n = 13 then [CHR 0x5C, CHR ''r'']
         else if n < 32 \<or> (127 \<le> n \<and> n \<le> 160) \<or> n = 173
           then [CHR 0x5C, CHR ''x'', hex_digit (n div 16), hex_digit (n mod 16)]
         else [c])"

definition repr_str :: "string \<Rightarrow> string" where
  "repr_str s =
     (let quote = (if CHR 0x27 \<in> set s \<and> CHR 0x22 \<notin> set s then CHR 0x22 else CHR 0x27)
      in [quote] @ concat (map (repr_char quote) s) @ [quote])"

fun py_repr :: "pyval \<Rightarrow> string" where
  "py_repr PNone = ''None''"
| "py_repr (PBool b) = (if b then ''True'' else ''False'')"
| "py_repr (PInt i) = str_of_int i"
| "py_repr (PStr s) = repr_str s"
| "py_repr (PList xs) = ''['' @ join '', '' (map py_repr xs) @ '']''"
| "py_repr (PDict kvs) =
     ''{'' @ join '', '' (map (\<lambda>kv. repr_str (fst kv) @ '': '' @ py_repr (snd kv)) kvs) @ ''}''"

text \<open>\<open>str(v)\<close>, which is what \<open>"{}".format(v)\<close> writes.\<close>

fun py_str :: "pyval \<Rightarrow> string" where
  "py_str (PStr s) = s"
| "py_str v = py_repr v"

section \<open>TableErrorCode\<close>

text \<open>The enumeration of lines 250 to 318, a \<open>str\<close>-valued \<open>Enum\<close>.\<close>

datatype TableErrorCode =
    account_already_exists
  | account_being_created
  | account_is_disabled
  | authentication_failed
  | authorization_failure
  | no_authentication_information
  | condition_headers_not_supported
  | condition_not_met
  | empty_metadata_key
  | insufficient_account_permissions
  | internal_error
  | invalid_authentication_info
  | invalid_header_value
  | invalid_http_verb
  | invalid_input
  | invalid_md5
  | invalid_metadata
  | invalid_query_parameter_value
  | invalid_range
  | invalid_resource_name
  | invalid_uri
  | invalid_xml_document
  | invalid_xml_node_value
  | md5_mismatch
  | metadata_too_large
  | missing_content_length_header
  | missing_required_query_parameter
  | missing_required_header
  | missing_required_xml_node
  | multiple_condition_headers_not_supported
  | operation_timed_out
  | out_of_range_input
  | out_of_range_query_parameter_value
  | request_body_too_large
  | resource_type_mismatch
  | request_url_failed_to_parse
  | resource_already_exists
  | resource_not_found
  | server_busy
  | unsupported_header
  | unsupported_xml_node
  | unsupported_query_parameter
  | unsupported_http_verb
  | duplicate_properties_specified
  | entity_not_found
  | entity_already_exists
  | entity_too_large
  | host_information_not_present
  | invalid_duplicate_row
  | invalid_value_type
  | json_format_not_supported
  | method_not_allowed
  | not_implemented
  | properties_need_value
  | property_name_invalid
  | property_name_too_long
  | property_value_too_large
  | table_already_exists
  | table_being_deleted
  | table_not_found
  | too_many_properties
  | update_condition_not_satisfied
  | x_method_incorrect_count
  | x_method_incorrect_value
  | x_method_not_using_post

text \<open>The member's \<open>.value\<close>, as the class body assigns it.\<close>

primrec value_of :: "TableErrorCode \<Rightarrow> string" where
    "value_of account_already_exists = ''AccountAlreadyExists''"
  | "value_of account_being_created = ''AccountBeingCreated''"
  | "value_of account_is_disabled = ''AccountIsDisabled''"
  | "value_of authentication_failed = ''AuthenticationFailed''"
  | "value_of authorization_failure = ''AuthorizationFailure''"
  | "value_of no_authentication_information = ''NoAuthenticationInformation''"
  | "value_of condition_headers_not_supported = ''ConditionHeadersNotSupported''"
  | "value_of condition_not_met = ''ConditionNotMet''"
  | "value_of empty_metadata_key = ''EmptyMetadataKey''"
  | "value_of insufficient_account_permissions = ''InsufficientAccountPermissions''"
  | "value_of internal_error = ''InternalError''"
  | "value_of invalid_authentication_info = ''InvalidAuthenticationInfo''"
  | "value_of invalid_header_value = ''InvalidHeaderValue''"
  | "value_of invalid_http_verb = ''InvalidHttpVerb''"
  | "value_of invalid_input = ''InvalidInput''"
  | "value_of invalid_md5 = ''InvalidMd5''"
  | "value_of invalid_metadata = ''InvalidMetadata''"
  | "value_of invalid_query_parameter_value = ''InvalidQueryParameterValue''"
  | "value_of invalid_range = ''InvalidRange''"
  | "value_of invalid_resource_name = ''InvalidResourceName''"
  | "value_of invalid_uri = ''InvalidUri''"
  | "value_of invalid_xml_document = ''InvalidXmlDocument''"
  | "value_of invalid_xml_node_value = ''InvalidXmlNodeValue''"
  | "value_of md5_mismatch = ''Md5Mismatch''"
  | "value_of metadata_too_large = ''MetadataTooLarge''"
  | "value_of missing_content_length_header = ''MissingContentLengthHeader''"
  | "value_of missing_required_query_parameter = ''MissingRequiredQueryParameter''"
  | "value_of missing_required_header = ''MissingRequiredHeader''"
  | "value_of missing_required_xml_node = ''MissingRequiredXmlNode''"
  | "value_of multiple_condition_headers_not_supported = ''MultipleConditionHeadersNotSupported''"
  | "value_of operation_timed_out = ''OperationTimedOut''"
  | "value_of out_of_range_input = ''OutOfRangeInput''"
  | "value_of out_of_range_query_parameter_value = ''OutOfRangeQueryParameterValue''"
  | "value_of request_body_too_large = ''RequestBodyTooLarge''"
  | "value_of resource_type_mismatch = ''ResourceTypeMismatch''"
  | "value_of request_url_failed_to_parse = ''RequestUrlFailedToParse''"
  | "value_of resource_already_exists = ''ResourceAlreadyExists''"
  | "value_of resource_not_found = ''ResourceNotFound''"
  | "value_of server_busy = ''ServerBusy''"
  | "value_of unsupported_header = ''UnsupportedHeader''"
  | "value_of unsupported_xml_node = ''UnsupportedXmlNode''"
  | "value_of unsupported_query_parameter = ''UnsupportedQueryParameter''"
  | "value_of unsupported_http_verb = ''UnsupportedHttpVerb''"
  | "value_of duplicate_properties_specified = ''DuplicatePropertiesSpecified''"
  | "value_of entity_not_found = ''EntityNotFound''"
  | "value_of entity_already_exists = ''EntityAlreadyExists''"
  | "value_of entity_too_large = ''EntityTooLarge''"
  | "value_of host_information_not_present = ''HostInformationNotPresent''"
  | "value_of invalid_duplicate_row = ''InvalidDuplicateRow''"
  | "value_of invalid_value_type = ''InvalidValueType''"
  | "value_of json_format_not_supported = ''JsonFormatNotSupported''"
  | "value_of method_not_allowed = ''MethodNotAllowed''"
  | "value_of not_implemented = ''NotImplemented''"
  | "value_of properties_need_value = ''PropertiesNeedValue''"
  | "value_of property_name_invalid = ''PropertyNameInvalid''"
  | "value_of property_name_too_long = ''PropertyNameTooLong''"
  | "value_of property_value_too_large = ''PropertyValueTooLarge''"
  | "value_of table_already_exists = ''TableAlreadyExists''"
  | "value_of table_being_deleted = ''TableBeingDeleted''"
  | "value_of table_not_found = ''TableNotFound''"
  | "value_of too_many_properties = ''TooManyProperties''"
  | "value_of update_condition_not_satisfied = ''UpdateConditionNotSatisfied''"
  | "value_of x_method_incorrect_count = ''XMethodIncorrectCount''"
  | "value_of x_method_incorrect_value = ''XMethodIncorrectValue''"
  | "value_of x_method_not_using_post = ''XMethodNotUsingPost''"

text \<open>The members, in the order of the class body.\<close>

definition TableErrorCode_members :: "TableErrorCode list" where
  "TableErrorCode_members =
    [account_already_exists, account_being_created, account_is_disabled,
     authentication_failed, authorization_failure, no_authentication_information,
     condition_headers_not_supported, condition_not_met, empty_metadata_key,
     insufficient_account_permissions, internal_error, invalid_authentication_info,
     invalid_header_value, invalid_http_verb, invalid_input, invalid_md5, invalid_metadata,
     invalid_query_parameter_value, invalid_range, invalid_resource_name, invalid_uri,
     invalid_xml_document, invalid_xml_node_value, md5_mismatch, metadata_too_large,
     missing_content_length_header, missing_required_query_parameter,
     missing_required_header, missing_required_xml_node,
     multiple_condition_headers_not_supported, operation_timed_out, out_of_range_input,
     out_of_range_query_parameter_value, request_body_too_large, resource_type_mismatch,
     request_url_failed_to_parse, resource_already_exists, resource_not_found, server_busy,
     unsupported_header, unsupported_xml_node, unsupported_query_parameter,
     unsupported_http_verb, duplicate_properties_specified, entity_not_found,
     entity_already_exists, entity_too_large, host_information_not_present,
     invalid_duplicate_row, invalid_value_type, json_format_not_supported,
     method_not_allowed, not_implemented, properties_need_value, property_name_invalid,
     property_name_too_long, property_value_too_large, table_already_exists,
     table_being_deleted, table_not_found, too_many_properties,
     update_condition_not_satisfied, x_method_incorrect_count, x_method_incorrect_value,
     x_method_not_using_post]"

text \<open>
  \<open>TableErrorCode(v)\<close>: the member whose value is \<open>v\<close>; \<open>None\<close> stands for the
  \<open>ValueError\<close> that the call raises when there is none. Only a string equals a
  member's value.
\<close>

fun TableErrorCode_call :: "pyval \<Rightarrow> TableErrorCode option" where
  "TableErrorCode_call (PStr s) = find (\<lambda>m. value_of m = s) TableErrorCode_members"
| "TableErrorCode_call v = None"

section \<open>The response and the error objects\<close>

text \<open>
  What \<open>_decode_error\<close> reads of a response: \<open>response.headers.get\<close>, and the outcome of
  \<open>ContentDecodePolicy.deserialize_from_http_generics(response)\<close>, which is a function
  of \<open>azure.core\<close> and so a parameter here: it raises \<open>DecodeError\<close>, or returns a
  value (\<open>None\<close> for an empty body, a string, a JSON value) or an element tree.
\<close>

datatype body = Value pyval | Tree element

datatype deserialized = DecodeError | Deserialized body

record http_response =
  headers :: "string \<rightharpoonup> string"
  deserialized_body :: deserialized

datatype error_type =
    HttpResponseError
  | ResourceNotFoundError
  | ResourceModifiedError
  | ResourceExistsError
  | ClientAuthenticationError

text \<open>The code an error carries: a member of the enumeration, or the value as decoded.\<close>

datatype code = Member TableErrorCode | Raw pyval

text \<open>
  Modelled from the spec: the exception classes of \<open>azure.core\<close> are not among the
  sources. An error object is its class (\<open>err_type\<close>, the spec's kind) with the
  message and the response its constructor was given and the two attributes that
  \<open>_decode_error\<close> sets; the attribute \<open>x\<close> is the field \<open>err_x\<close>.
\<close>

record table_error =
  err_type :: error_type
  err_message :: pyval
  err_response :: http_response
  err_error_code :: code
  err_additional_info :: "(string \<times> string option) list"

section \<open>_decode_error\<close>

text \<open>\<open>info.text\<close> as a value: an element without text has \<open>None\<close>.\<close>

fun text_value :: "string option \<Rightarrow> pyval" where
  "text_value None = PNone"
| "text_value (Some s) = PStr s"

text \<open>\<open>Element.iter()\<close>: the element itself, then its descendants in document order.\<close>

fun iter :: "element \<Rightarrow> element list" where
  "iter (Element t x cs) = Element t x cs # concat (map iter cs)"

text \<open>
  The body of the loop of lines 138 to 144 over \<open>envelope = error_body["odata.error"]\<close>.
  \<open>info\<close> is a key of the envelope (or an item of it, when it is no dictionary), and
  none of these values has an attribute \<open>tag\<close>: the last branch raises.
\<close>

fun json_step ::
  "pyval \<Rightarrow> pyval \<Rightarrow> pyval \<times> pyval \<times> (string \<times> string option) list
     \<Rightarrow> exn + pyval \<times> pyval \<times> (string \<times> string option) list" where
  "json_step envelope info (error_code, error_message, additional_data) =
     (if info = PStr ''code'' then
        (case py_getitem envelope ''code'' of
           Inl e \<Rightarrow> Inl e
         | Inr v \<Rightarrow> Inr (v, error_message, additional_data))
      else if info = PStr ''message'' then
        (case py_getitem envelope ''message'' of
           Inl e \<Rightarrow> Inl e
         | Inr m \<Rightarrow>
             (case py_getitem m ''value'' of
                Inl e \<Rightarrow> Inl e
              | Inr v \<Rightarrow> Inr (error_code, v, additional_data)))
      else Inl AttributeError)"

text \<open>The body of the loop of lines 147 to 153 over \<open>error_body.iter()\<close>.\<close>

fun xml_step ::
  "element \<Rightarrow> pyval \<times> pyval \<times> (string \<times> string option) list
     \<Rightarrow> pyval \<times> pyval \<times> (string \<times> string option) list" where
  "xml_step info (error_code, error_message, additional_data) =
     (if str_in ''code'' (lower (el_tag info)) then
        (text_value (el_text info), error_message, additional_data)
      else if str_in ''message'' (lower (el_tag info)) then
        (error_code, text_value (el_text info), additional_data)
      else
        (error_code, error_message, dict_setitem (el_tag info) (el_text info) additional_data))"

text \<open>
  Lines 133 to 155: the code of the header, then the body. A \<open>DecodeError\<close> is passed
  over; every other exception leaves the function. An element is true when it has
  children; a value that is true and no element has no \<open>iter\<close>.
\<close>

definition decode_body ::
  "http_response \<Rightarrow> pyval \<Rightarrow> exn + pyval \<times> pyval \<times> (string \<times> string option) list" where
  "decode_body response error_message =
     (let error_code = (case headers response ''x-ms-error-code'' of
                          None \<Rightarrow> PNone | Some s \<Rightarrow> PStr s);
          additional_data = []
      in case deserialized_body response of
           DecodeError \<Rightarrow> Inr (error_code, error_message, additional_data)
         | Deserialized (Value (PDict items)) \<Rightarrow>
             (let envelope = (case map_of items ''odata.error'' of
                                None \<Rightarrow> PDict [] | Some v \<Rightarrow> v)
              in case py_iter envelope of
                   Inl e \<Rightarrow> Inl e
                 | Inr infos \<Rightarrow>
                     for_loop (json_step envelope) infos
                       (error_code, error_message, additional_data))
         | Deserialized (Value v) \<Rightarrow>
             (if truthy v then Inl AttributeError
              else Inr (error_code, error_message, additional_data))
         | Deserialized (Tree root) \<Rightarrow>
             (if el_children root \<noteq> [] then
                Inr (foldl (\<lambda>s info. xml_step info s)
                       (error_code, error_message, additional_data) (iter root))
              else Inr (error_code, error_message, additional_data)))"

text \<open>
  Lines 160 to 186: the class by the member. (The lists of the source also hold the
  classes \<open>ResourceNotFoundError\<close> and \<open>ResourceExistsError\<close>, which no member equals.)
\<close>

definition classify :: "TableErrorCode \<Rightarrow> error_type" where
  "classify error_code =
     (if error_code \<in> set [condition_not_met, update_condition_not_satisfied] then
        ResourceModifiedError
      else if error_code \<in> set [invalid_authentication_info, authentication_failed] then
        ClientAuthenticationError
      else if error_code \<in> set [resource_not_found, table_not_found, entity_not_found] then
        ResourceNotFoundError
      else if error_code \<in> set [resource_already_exists, table_already_exists,
                                  account_already_exists, entity_already_exists] then
        ResourceExistsError
      else HttpResponseError)"

text \<open>
  Lines 191 to 194: \<open>error_code.value\<close> for a member; any other value has no such
  attribute and is formatted itself.
\<close>

fun code_str :: "code \<Rightarrow> string" where
  "code_str (Member m) = value_of m"
| "code_str (Raw v) = py_str v"

fun opt_str :: "string option \<Rightarrow> string" where
  "opt_str None = ''None''"
| "opt_str (Some s) = s"

text \<open>Line 196, for one item of \<open>additional_data\<close>.\<close>

definition info_line :: "string \<times> string option \<Rightarrow> string" where
  "info_line item = [CHR 0x0A] @ fst item @ '':'' @ opt_str (snd item)"

text \<open>
  \<open>_decode_error(response, error_message, error_type)\<close>. A response of \<open>None\<close> has no
  \<open>headers\<close>. The keyword arguments, which only pass through to the constructor, are
  left out.
\<close>

definition decode_error ::
  "http_response option \<Rightarrow> pyval \<Rightarrow> error_type option \<Rightarrow> exn + table_error" where
  "decode_error response error_message error_type =
     (case response of
        None \<Rightarrow> Inl AttributeError
      | Some r \<Rightarrow>
          (case decode_body r error_message of
             Inl e \<Rightarrow> Inl e
           | Inr (error_code, error_message, additional_data) \<Rightarrow>
               (let (error_type, error_code) =
                      (case error_type of
                         Some t \<Rightarrow> (t, Raw error_code)
                       | None \<Rightarrow>
                           (case TableErrorCode_call error_code of
                              Some m \<Rightarrow> (classify m, Member m)
                            | None \<Rightarrow> (HttpResponseError, Raw error_code)))
                in case py_iadd_str error_message
                          ([CHR 0x0A] @ ''ErrorCode:'' @ code_str error_code) of
                     Inl e \<Rightarrow> Inl e
                   | Inr error_message \<Rightarrow>
                       (case for_loop (\<lambda>item m. py_iadd_str m (info_line item))
                               additional_data error_message of
                          Inl e \<Rightarrow> Inl e
                        | Inr error_message \<Rightarrow>
                            Inr \<lparr>err_type = error_type, err_message = error_message,
                                 err_response = r, err_error_code = error_code,
                                 err_additional_info = additional_data\<rparr>))))"

section \<open>The name validators\<close>

text \<open>
  The two compiled patterns of lines 46 and 53, as \<open>pattern.match(name) is not None\<close>.
  A pattern is read from the left with the rest of the pattern as a continuation:
  \<open>rep cls lo hi rest\<close> is the piece \<open>[cls]{lo,hi}\<close> followed by \<open>rest\<close>, and
  \<open>dollar\<close> is the final \<open>$\<close>, which in Python (without \<open>re.MULTILINE\<close>) matches at
  the end of the string and also just before a line feed that ends the string.
\<close>

fun rep :: "(char \<Rightarrow> bool) \<Rightarrow> nat \<Rightarrow> nat \<Rightarrow> (string \<Rightarrow> bool) \<Rightarrow> string \<Rightarrow> bool" where
  "rep cls lo hi rest [] = (lo = 0 \<and> rest [])"
| "rep cls lo hi rest (c # cs) =
     ((lo = 0 \<and> rest (c # cs)) \<or> (0 < hi \<and> cls c \<and> rep cls (lo - 1) (hi - 1) rest cs))"

definition dollar :: "string \<Rightarrow> bool" where
  "dollar s = (s = [] \<or> s = [CHR 0x0A])"

text \<open>The classes \<open>[a-zA-Z]\<close>, \<open>[a-zA-Z0-9]\<close>, \<open>[^/\\#?]\<close> and \<open>[^ /\\#?]\<close>.\<close>

definition letter :: "char \<Rightarrow> bool" where
  "letter c = (let n = (of_char c :: nat) in (97 \<le> n \<and> n \<le> 122) \<or> (65 \<le> n \<and> n \<le> 90))"

definition alphanumeric :: "char \<Rightarrow> bool" where
  "alphanumeric c = (letter c \<or> (let n = (of_char c :: nat) in 48 \<le> n \<and> n \<le> 57))"

definition cosmos_char :: "char \<Rightarrow> bool" where
  "cosmos_char c = (c \<notin> set [CHR ''/'', CHR 0x5C, CHR ''#'', CHR ''?''])"

definition cosmos_last_char :: "char \<Rightarrow> bool" where
  "cosmos_last_char c = (c \<notin> set [CHR '' '', CHR ''/'', CHR 0x5C, CHR ''#'', CHR ''?''])"

definition STORAGE_VALID_TABLE :: "string \<Rightarrow> bool" where
  "STORAGE_VALID_TABLE name = rep letter 1 1 (rep alphanumeric 2 62 dollar) name"

definition COSMOS_VALID_TABLE :: "string \<Rightarrow> bool" where
  "COSMOS_VALID_TABLE name = rep cosmos_char 0 253 (rep cosmos_last_char 1 1 dollar) name"

definition storage_message :: string where
  "storage_message =
     ''Storage table names must be alphanumeric, cannot begin with a number, '' @
     ''and must be between 3-63 characters long.''"

definition cosmos_message :: string where
  "cosmos_message =
     ''Cosmos table names must contain from 1-255 characters, and they cannot contain /, '' @
     [CHR 0x5C] @ '', #, ?, or a trailing space.''"

definition validate_storage_tablename :: "string \<Rightarrow> exn + unit" where
  "validate_storage_tablename table_name =
     (if \<not> STORAGE_VALID_TABLE table_name then Inl (ValueError storage_message) else Inr ())"

definition validate_cosmos_tablename :: "string \<Rightarrow> exn + unit" where
  "validate_cosmos_tablename table_name =
     (if \<not> COSMOS_VALID_TABLE table_name then Inl (ValueError cosmos_message) else Inr ())"

section \<open>_validate_tablename_error\<close>

text \<open>
  \<open>decoded_error.error_code == s\<close>: a member of the enumeration is a \<open>str\<close> and
  compares by its value.
\<close>

fun code_eq :: "code \<Rightarrow> string \<Rightarrow> bool" where
  "code_eq (Member m) s = (value_of m = s)"
| "code_eq (Raw (PStr t)) s = (t = s)"
| "code_eq (Raw v) s = False"

text \<open>
  \<open>sub in v\<close>: a substring of a string, an item of a list, a key of a dictionary; the
  other values are no containers.
\<close>

fun py_in :: "string \<Rightarrow> pyval \<Rightarrow> exn + bool" where
  "py_in sub (PStr s) = Inr (str_in sub s)"
| "py_in sub (PList xs) = Inr (PStr sub \<in> set xs)"
| "py_in sub (PDict kvs) = Inr (sub \<in> set (map fst kvs))"
| "py_in sub v = Inl TypeError"

text \<open>\<open>s1 in v or s2 in v or ...\<close>, from the left.\<close>

fun any_in :: "string list \<Rightarrow> pyval \<Rightarrow> exn + bool" where
  "any_in [] v = Inr False"
| "any_in (sub # subs) v =
     (case py_in sub v of
        Inl e \<Rightarrow> Inl e
      | Inr found \<Rightarrow> if found then Inr True else any_in subs v)"

text \<open>
  The test of one branch of lines 90 to 129:
  \<open>decoded_error.error_code == code and (s1 in decoded_error.message or ...)\<close>.
\<close>

definition branch_test :: "table_error \<Rightarrow> string \<Rightarrow> string list \<Rightarrow> exn + bool" where
  "branch_test decoded_error code_name subs =
     (if code_eq (err_error_code decoded_error) code_name
      then any_in subs (err_message decoded_error) else Inr False)"

text \<open>The branches of the \<open>if\<close>/\<open>elif\<close> chain, in the order of the source.\<close>

definition branches :: "(string \<times> string list \<times> (string \<Rightarrow> exn + unit)) list" where
  "branches =
     [(''InvalidResourceName'',
         [''The specified resource name contains invalid characters''],
         validate_storage_tablename),
      (''InvalidResourceName'',
         [''The specifed resource name contains invalid characters''],
         validate_storage_tablename),
      (''OutOfRangeInput'',
         [''The specified resource name length is not within the permissible limits''],
         validate_storage_tablename),
      (''InternalServerError'',
         [''The resource name presented contains invalid character'',
          ''The resource name can'' @ [CHR 0x27] @ ''t end with space''],
         validate_cosmos_tablename),
      (''BadRequest'',
         [''The input name is invalid.''],
         validate_cosmos_tablename),
      (''InvalidInput'',
         [''Request url is invalid.'',
          ''One of the input values is invalid.'',
          ''The table name contains an invalid character'',
          ''Table name cannot end with a space.''],
         validate_cosmos_tablename),
      (''Unauthorized'',
         [''The input authorization token can'' @ [CHR 0x27] @ ''t serve the request.'',
          ''The MAC signature found in the HTTP request''],
         validate_cosmos_tablename)]"

fun run_branches ::
  "(string \<times> string list \<times> (string \<Rightarrow> exn + unit)) list \<Rightarrow> table_error \<Rightarrow> string
     \<Rightarrow> exn + unit" where
  "run_branches [] decoded_error table_name = Inr ()"
| "run_branches ((code_name, subs, validate) # bs) decoded_error table_name =
     (case branch_test decoded_error code_name subs of
        Inl e \<Rightarrow> Inl e
      | Inr matched \<Rightarrow>
          if matched then validate table_name
          else run_branches bs decoded_error table_name)"

definition validate_tablename_error :: "table_error \<Rightarrow> string \<Rightarrow> exn + unit" where
  "validate_tablename_error decoded_error table_name =
     run_branches branches decoded_error table_name"

section \<open>_process_table_error\<close>

text \<open>
  The error object handed in: each of the two attributes that line 215 reads may be
  missing, and \<open>response\<close> may be \<open>None\<close>.
\<close>

datatype 'a attribute = NoAttribute | Attribute 'a

record storage_error =
  response_attr :: "http_response option attribute"
  message_attr :: "pyval attribute"

text \<open>
  The function never returns: it raises the error it was given, the decoded error
  (\<open>_reraise_error\<close>, whose traceback is not modelled), or another exception.
\<close>

datatype raised =
    Raise_storage_error storage_error
  | Raise_decoded_error table_error
  | Raise exn

definition process_table_error :: "storage_error \<Rightarrow> string option \<Rightarrow> raised" where
  "process_table_error storage_error table_name =
     (case (case response_attr storage_error of
              NoAttribute \<Rightarrow> Inl AttributeError
            | Attribute response \<Rightarrow>
                (case message_attr storage_error of
                   NoAttribute \<Rightarrow> Inl AttributeError
                 | Attribute error_message \<Rightarrow> decode_error response error_message None)) of
        Inl AttributeError \<Rightarrow> Raise_storage_error storage_error
      | Inl e \<Rightarrow> Raise e
      | Inr decoded_error \<Rightarrow>
          (case table_name of
             Some (c # cs) \<Rightarrow>
               (case validate_tablename_error decoded_error (c # cs) of
                  Inl e \<Rightarrow> Raise e
                | Inr u \<Rightarrow> Raise_decoded_error decoded_error)
           | _ \<Rightarrow> Raise_decoded_error decoded_error))"

section \<open>TableTransactionError\<close>

text \<open>
  \<open>int(s)\<close> for a string: optional white space, an optional sign, decimal digits with
  single underscores between them, optional white space. Among the code points below
  256 the white space is 9 to 13, 32, 133 and 160. A literal of more digits than
  \<open>sys.get_int_max_str_digits()\<close>, 4300 unless the interpreter is told otherwise, is
  refused with a \<open>ValueError\<close> as well; leading zeros count, underscores do not.
\<close>

definition int_max_str_digits :: nat where
  "int_max_str_digits = 4300"

definition int_space :: "char \<Rightarrow> bool" where
  "int_space c = (of_char c \<in> set [9, 10, 11, 12, 13, 32, 133, 160 :: nat])"

definition digit :: "char \<Rightarrow> bool" where
  "digit c = (let n = (of_char c :: nat) in 48 \<le> n \<and> n \<le> 57)"

definition digit_value :: "char \<Rightarrow> nat" where
  "digit_value c = of_char c - 48"

text \<open>No underscore first, last, or next to another one.\<close>

fun underscores_ok :: "string \<Rightarrow> bool" where
  "underscores_ok [] = False"
| "underscores_ok [c] = digit c"
| "underscores_ok (c # d # cs) = (digit c \<and> (if d = CHR ''_'' then underscores_ok cs
                                              else underscores_ok (d # cs)))"

definition decimal :: "string \<Rightarrow> nat" where
  "decimal ds = foldl (\<lambda>a c. 10 * a + digit_value c) 0 ds"

definition py_int :: "string \<Rightarrow> int option" where
  "py_int s =
     (let s1 = dropWhile int_space s;
          negative = (s1 \<noteq> [] \<and> hd s1 = CHR ''-'');
          s2 = (if s1 \<noteq> [] \<and> (hd s1 = CHR ''-'' \<or> hd s1 = CHR ''+'') then tl s1 else s1);
          literal = takeWhile (\<lambda>c. digit c \<or> c = CHR ''_'') s2;
          trailing = dropWhile (\<lambda>c. digit c \<or> c = CHR ''_'') s2
      in if underscores_ok literal \<and> list_all int_space trailing \<and>
            length (filter digit literal) \<le> int_max_str_digits
         then Some ((if negative then - 1 else 1) * int (decimal (filter digit literal)))
         else None)"

text \<open>\<open>s.split(sep, 1)\<close>: one piece, or the two pieces around the first \<open>sep\<close>.\<close>

definition split1 :: "char \<Rightarrow> string \<Rightarrow> string list" where
  "split1 sep s =
     (case dropWhile (\<lambda>c. c \<noteq> sep) s of
        [] \<Rightarrow> [s]
      | c # after \<Rightarrow> [takeWhile (\<lambda>c. c \<noteq> sep) s, after])"

text \<open>
  The body of the \<open>try\<close> of lines 240 and 241. Only a string has \<open>split\<close> (for the
  other values of the model the attribute is missing).
\<close>

definition extract_index_try :: "pyval \<Rightarrow> exn + int" where
  "extract_index_try message =
     (case message of
        PStr s \<Rightarrow>
          (case split1 CHR '':'' s of
             [] \<Rightarrow> Inl IndexError
           | section0 # sections \<Rightarrow>
               (case py_int section0 of
                  None \<Rightarrow> Inl (ValueError ''invalid literal for int() with base 10'')
                | Some i \<Rightarrow> Inr i))
      | _ \<Rightarrow> Inl AttributeError)"

text \<open>\<open>_extract_index\<close>: the bare \<open>except\<close> turns every exception into 0.\<close>

definition extract_index :: "pyval \<Rightarrow> exn + int" where
  "extract_index message =
     (case extract_index_try message of Inl e \<Rightarrow> Inr 0 | Inr i \<Rightarrow> Inr i)"



section \<open>The specification's vocabulary\<close>

text \<open>
  The kinds of the specification's ClassifiedError, and the exception class that
  stands for each.
\<close>

datatype kind = NotFound | AlreadyExists | ModifiedConflict | AuthFailure | Generic

fun kind_of :: "error_type \<Rightarrow> kind" where
  "kind_of HttpResponseError = Generic"
| "kind_of ResourceNotFoundError = NotFound"
| "kind_of ResourceModifiedError = ModifiedConflict"
| "kind_of ResourceExistsError = AlreadyExists"
| "kind_of ClientAuthenticationError = AuthFailure"

text \<open>The fixed sets of section 4.2 of the specification, by wire string.\<close>

definition documented_kind :: "string \<Rightarrow> kind" where
  "documented_kind s =
     (if s \<in> set [''ConditionNotMet'', ''UpdateConditionNotSatisfied''] then ModifiedConflict
      else if s \<in> set [''InvalidAuthenticationInfo'', ''AuthenticationFailed''] then AuthFailure
      else if s \<in> set [''ResourceNotFound'', ''TableNotFound'', ''EntityNotFound''] then NotFound
      else if s \<in> set [''ResourceAlreadyExists'', ''TableAlreadyExists'',
                        ''AccountAlreadyExists'', ''EntityAlreadyExists''] then AlreadyExists
      else Generic)"

text \<open>A code string of the closed enumeration.\<close>

definition enumerated :: "string \<Rightarrow> bool" where
  "enumerated s = (s \<in> set (map value_of TableErrorCode_members))"

text \<open>The messages that \<open>+=\<close> can extend by a string: strings and lists.\<close>

fun addable :: "pyval \<Rightarrow> bool" where
  "addable (PStr m) = True"
| "addable (PList xs) = True"
| "addable v = False"


text \<open>
  The XML branch in terms of the elements it visits: the elements that set the code,
  those that set the message, and the others; the text of the last element of a kind;
  the keys of a dictionary in the order of their first assignment.
\<close>

definition is_code :: "element \<Rightarrow> bool" where
  "is_code info = str_in ''code'' (lower (el_tag info))"

definition is_message :: "element \<Rightarrow> bool" where
  "is_message info = (\<not> is_code info \<and> str_in ''message'' (lower (el_tag info)))"

definition is_extra :: "element \<Rightarrow> bool" where
  "is_extra info = (\<not> is_code info \<and> \<not> is_message info)"

definition last_text :: "(element \<Rightarrow> bool) \<Rightarrow> element list \<Rightarrow> pyval \<Rightarrow> pyval" where
  "last_text P es fallback =
     (if filter P es = [] then fallback else text_value (el_text (last (filter P es))))"

definition last_extra :: "element list \<Rightarrow> string \<Rightarrow> string option option" where
  "last_extra es k =
     (if filter (\<lambda>info. is_extra info \<and> el_tag info = k) es = [] then None
      else Some (el_text (last (filter (\<lambda>info. is_extra info \<and> el_tag info = k) es))))"

definition first_occurrences :: "'a list \<Rightarrow> 'a list" where
  "first_occurrences xs = rev (remdups (rev xs))"

definition visited :: "element \<Rightarrow> element list" where
  "visited root = (if el_children root \<noteq> [] then iter root else [])"

definition header_code :: "http_response \<Rightarrow> pyval" where
  "header_code r = (case headers r ''x-ms-error-code'' of None \<Rightarrow> PNone | Some s \<Rightarrow> PStr s)"

text \<open>
  The XML branch as the specification words it: a loop over the direct children.
\<close>

definition children_only ::
  "http_response \<Rightarrow> pyval \<Rightarrow> element \<Rightarrow> pyval \<times> pyval \<times> (string \<times> string option) list" where
  "children_only r error_message root =
     foldl (\<lambda>s info. xml_step info s) (header_code r, error_message, []) (el_children root)"

text \<open>
  The lines that lines 191 to 196 append to the message, and the parser of the
  specification's round trip: the text is split at the line feeds, the first line is
  \<open>ErrorCode:\<close> and the code, and every other line is a key and a value around its
  first colon. A code and extra data are plain when the code and the keys and values
  hold no line feed, the keys hold no colon, and no value is \<open>None\<close>.
\<close>

definition appended_lines :: "code \<Rightarrow> (string \<times> string option) list \<Rightarrow> string" where
  "appended_lines c a = [CHR 0x0A] @ ''ErrorCode:'' @ code_str c @ concat (map info_line a)"

fun split_on :: "char \<Rightarrow> string \<Rightarrow> string list" where
  "split_on sep [] = [[]]"
| "split_on sep (c # cs) =
     (if c = sep then [] # split_on sep cs
      else (case split_on sep cs of [] \<Rightarrow> [[c]] | p # ps \<Rightarrow> (c # p) # ps))"

definition parse_line :: "string \<Rightarrow> (string \<times> string option) option" where
  "parse_line l =
     (case dropWhile (\<lambda>c. c \<noteq> CHR '':'') l of
        [] \<Rightarrow> None
      | c # v \<Rightarrow> Some (takeWhile (\<lambda>c. c \<noteq> CHR '':'') l, Some v))"

definition reparse :: "string \<Rightarrow> (string \<times> (string \<times> string option) list) option" where
  "reparse suffix =
     (case split_on CHR 0x0A suffix of
        [] # first # rest \<Rightarrow>
          (if startswith ''ErrorCode:'' first
           then map_option (\<lambda>items. (drop 10 first, items)) (those (map parse_line rest))
           else None)
      | _ \<Rightarrow> None)"

definition line_of :: "string \<times> string option \<Rightarrow> string" where
  "line_of item = fst item @ '':'' @ opt_str (snd item)"

definition plain_item :: "string \<times> string option \<Rightarrow> bool" where
  "plain_item item =
     (CHR 0x0A \<notin> set (fst item) \<and> CHR '':'' \<notin> set (fst item) \<and>
      (case snd item of None \<Rightarrow> False | Some v \<Rightarrow> CHR 0x0A \<notin> set v))"

definition plain :: "code \<Rightarrow> (string \<times> string option) list \<Rightarrow> bool" where
  "plain c a = (CHR 0x0A \<notin> set (code_str c) \<and> list_all plain_item a)"

text \<open>What a call of \<open>_decode_error\<close> returned, if it returned.\<close>

definition decoded_message :: "exn + table_error \<Rightarrow> pyval option" where
  "decoded_message result = (case result of Inl e \<Rightarrow> None | Inr err \<Rightarrow> Some (err_message err))"

definition decoded_info :: "exn + table_error \<Rightarrow> (string \<times> string option) list option" where
  "decoded_info result =
     (case result of Inl e \<Rightarrow> None | Inr err \<Rightarrow> Some (err_additional_info err))"

definition decoded_code :: "exn + table_error \<Rightarrow> code option" where
  "decoded_code result = (case result of Inl e \<Rightarrow> None | Inr err \<Rightarrow> Some (err_error_code err))"


subsection \<open>Concrete inputs\<close>

text \<open>
  A JSON error body whose envelope has a field beside \<open>code\<close> and \<open>message\<close>.
\<close>

definition sibling_response :: http_response where
  "sibling_response =
     \<lparr>headers = Map.empty,
      deserialized_body = Deserialized (Value (PDict
        [(''odata.error'', PDict
           [(''code'', PStr ''EntityAlreadyExists''),
            (''message'', PDict [(''lang'', PStr ''en-US''),
                                (''value'', PStr ''The entity exists.'')]),
            (''target'', PStr ''Entity'')])]))\<rparr>"

text \<open>A response with the error-code header and no body.\<close>

definition empty_response :: http_response where
  "empty_response =
     \<lparr>headers = Map.empty(''x-ms-error-code'' \<mapsto> ''TableNotFound''),
      deserialized_body = Deserialized (Value PNone)\<rparr>"

text \<open>The decoded error of Cosmos for a table name that is too long.\<close>

definition bad_request_error :: table_error where
  "bad_request_error =
     \<lparr>err_type = HttpResponseError,
      err_message = PStr (''The input name is invalid.'' @ [CHR 0x0A] @ ''ErrorCode:BadRequest''),
      err_response = \<lparr>headers = Map.empty, deserialized_body = DecodeError\<rparr>,
      err_error_code = Raw (PStr ''BadRequest''),
      err_additional_info = []\<rparr>"


text \<open>An XML error body with a nested element.\<close>

definition storage_xml_root :: element where
  "storage_xml_root =
     Element ''Error'' None
       [Element ''Code'' (Some ''EntityAlreadyExists'') [],
        Element ''Message'' (Some ''The entity exists.'')
          [Element ''Detail'' (Some ''row 7'') []]]"

definition storage_xml :: http_response where
  "storage_xml = \<lparr>headers = Map.empty, deserialized_body = Deserialized (Tree storage_xml_root)\<rparr>"

text \<open>
  Three XML bodies: one whose entries are plain, and two with different extra data and
  the same appended lines.
\<close>

definition plain_xml :: http_response where
  "plain_xml =
     \<lparr>headers = Map.empty(''x-ms-error-code'' \<mapsto> ''InvalidInput''),
      deserialized_body = Deserialized (Tree
        (Element ''Error'' (Some ''tables'')
           [Element ''Detail'' (Some ''x'') [], Element ''Hint'' (Some ''y'') []]))\<rparr>"

definition one_field_xml :: http_response where
  "one_field_xml =
     \<lparr>headers = Map.empty(''x-ms-error-code'' \<mapsto> ''InvalidInput''),
      deserialized_body = Deserialized (Tree
        (Element ''Error'' None
           [Element ''Detail'' (Some (''x'' @ [CHR 0x0A] @ ''Hint:y'')) []]))\<rparr>"

definition two_field_xml :: http_response where
  "two_field_xml =
     \<lparr>headers = Map.empty(''x-ms-error-code'' \<mapsto> ''InvalidInput''),
      deserialized_body = Deserialized (Tree
        (Element ''Error'' None
           [Element ''Detail'' (Some ''x'') [], Element ''Hint'' (Some ''y'') []]))\<rparr>"

section \<open>Lemmas\<close>

subsection \<open>The enumeration\<close>

lemma call_Some: "TableErrorCode_call (PStr s) = Some m \<Longrightarrow> value_of m = s \<and> enumerated s"
  by (auto simp: find_Some_iff enumerated_def)

lemma call_None: "TableErrorCode_call (PStr s) = None \<Longrightarrow> \<not> enumerated s"
  by (auto simp: find_None_iff enumerated_def)

lemma classify_documented: "kind_of (classify m) = documented_kind (value_of m)"
  by (cases m) (simp_all add: classify_def documented_kind_def)

subsection \<open>Appending to the message\<close>

lemma iadd_addable: "addable m \<Longrightarrow> \<exists>m'. py_iadd_str m s = Inr m' \<and> addable m'"
  by (cases m) simp_all

lemma loop_addable:
  "addable m \<Longrightarrow>
   \<exists>m'. for_loop (\<lambda>item m. py_iadd_str m (info_line item)) a m = Inr m' \<and> addable m'"
proof (induction a arbitrary: m)
  case Nil
  then show ?case by simp
next
  case (Cons item a)
  from iadd_addable [OF Cons.prems] obtain m1
    where m1: "py_iadd_str m (info_line item) = Inr m1" "addable m1" by blast
  from Cons.IH [OF m1(2)] m1(1) show ?case by simp
qed

subsection \<open>int() and split\<close>

lemma digit_not_space: "digit c \<Longrightarrow> \<not> int_space c"
  by (auto simp: digit_def int_space_def)

lemma digit_not_sign: "digit c \<Longrightarrow> c \<noteq> CHR ''-'' \<and> c \<noteq> CHR ''+'' \<and> c \<noteq> CHR ''_''"
  by (auto simp: digit_def)

lemma underscores_ok_digits: "ds \<noteq> [] \<Longrightarrow> list_all digit ds \<Longrightarrow> underscores_ok ds"
  by (induction ds rule: underscores_ok.induct) (auto dest: digit_not_sign)

lemma underscores_ok_hd: "underscores_ok l \<Longrightarrow> l \<noteq> [] \<and> digit (hd l)"
  by (induction l rule: underscores_ok.induct) auto

lemma py_int_digits:
  assumes "ds \<noteq> []" and "list_all digit ds" and "length ds \<le> int_max_str_digits"
  shows "py_int ds = Some (int (decimal ds))"
proof -
  from assms obtain c cs where ds: "ds = c # cs" by (cases ds) auto
  with assms have c: "digit c" by simp
  have s1: "dropWhile int_space ds = ds"
    using ds c by (simp add: digit_not_space)
  have s2: "(if ds \<noteq> [] \<and> (hd ds = CHR ''-'' \<or> hd ds = CHR ''+'') then tl ds else ds) = ds"
    using ds c by (auto dest: digit_not_sign)
  have all: "\<forall>x\<in>set ds. digit x \<or> x = CHR ''_''"
    using assms(2) by (auto simp: list_all_iff)
  have lit: "takeWhile (\<lambda>c. digit c \<or> c = CHR ''_'') ds = ds"
    using all by (simp add: takeWhile_eq_all_conv)
  have tr: "dropWhile (\<lambda>c. digit c \<or> c = CHR ''_'') ds = []"
    using all by simp
  have fl: "filter digit ds = ds"
    using assms(2) by (simp add: list_all_iff)
  have neg: "\<not> (ds \<noteq> [] \<and> hd ds = CHR ''-'')"
    using ds c by (auto dest: digit_not_sign)
  have ok: "underscores_ok ds"
    by (rule underscores_ok_digits [OF assms(1,2)])
  show ?thesis
    unfolding py_int_def Let_def s1 s2 lit tr fl
    using neg ok assms(1,3) by simp
qed






lemma py_int_no_leading:
  assumes "s = [] \<or> \<not> (digit (hd s) \<or> hd s = CHR ''+'' \<or> hd s = CHR ''-'' \<or> int_space (hd s))"
  shows "py_int s = None"
proof (cases s)
  case Nil
  then show ?thesis by (simp add: py_int_def)
next
  case (Cons c cs)
  with assms have c: "\<not> digit c" "c \<noteq> CHR ''+''" "c \<noteq> CHR ''-''" "\<not> int_space c" by auto
  have "\<not> underscores_ok (takeWhile (\<lambda>c. digit c \<or> c = CHR ''_'') (c # cs))"
    using c(1) underscores_ok_hd [of "takeWhile (\<lambda>c. digit c \<or> c = CHR ''_'') (c # cs)"]
    by (auto split: if_splits)
  with Cons c show ?thesis
    by (simp add: py_int_def Let_def)
qed

lemma section0: "\<exists>sections. split1 sep s = takeWhile (\<lambda>c. c \<noteq> sep) s # sections"
proof (cases "dropWhile (\<lambda>c. c \<noteq> sep) s")
  case Nil
  then have tw: "takeWhile (\<lambda>c. c \<noteq> sep) s = s"
    by (simp add: takeWhile_eq_all_conv)
  show ?thesis
    unfolding split1_def Nil tw by simp
next
  case (Cons a list)
  then show ?thesis by (simp add: split1_def)
qed

lemma extract_index_str:
  "extract_index (PStr s) =
     Inr (case py_int (takeWhile (\<lambda>c. c \<noteq> CHR '':'') s) of None \<Rightarrow> 0 | Some i \<Rightarrow> i)"
proof -
  from section0 [of "CHR '':''" s] obtain sections
    where "split1 CHR '':'' s = takeWhile (\<lambda>c. c \<noteq> CHR '':'') s # sections" by blast
  then show ?thesis
    by (simp add: extract_index_def extract_index_try_def split: option.splits)
qed

lemma extract_index_total: "\<exists>i. extract_index message = Inr i"
  by (simp add: extract_index_def split: sum.splits)

lemma takeWhile_hd: "takeWhile P s = [] \<or> (s \<noteq> [] \<and> hd (takeWhile P s) = hd s)"
  by (cases s) auto

lemma digits_42: "list_all digit ''42'' \<and> length ''42'' \<le> int_max_str_digits"
  by code_simp

lemma decimal_42: "decimal ''42'' = 42"
  by code_simp

lemma no_colon_7: "CHR '':'' \<notin> set ''7'' \<and> py_int ''7'' = Some 7"
  by code_simp


lemma cosmos_255: "COSMOS_VALID_TABLE (replicate 254 CHR ''a'' @ [CHR 0x0A])"
  by code_simp

subsection \<open>The patterns\<close>










subsection \<open>The loop over the elements\<close>

lemma last_text_snoc:
  "last_text P (es @ [x]) d = (if P x then text_value (el_text x) else last_text P es d)"
  by (simp add: last_text_def)

lemma last_extra_snoc:
  "last_extra (es @ [x]) k =
     (if is_extra x \<and> el_tag x = k then Some (el_text x) else last_extra es k)"
  by (simp add: last_extra_def)

lemma first_occurrences_snoc:
  "first_occurrences (xs @ [x]) =
     (if x \<in> set xs then first_occurrences xs else first_occurrences xs @ [x])"
  by (simp add: first_occurrences_def)

lemma set_first_occurrences: "set (first_occurrences xs) = set xs"
  by (simp add: first_occurrences_def)

lemma map_of_setitem: "map_of (dict_setitem k v d) = (map_of d)(k \<mapsto> v)"
  by (induction d) auto

lemma keys_setitem_old: "k \<in> set (map fst d) \<Longrightarrow> map fst (dict_setitem k v d) = map fst d"
  by (induction d) force+

lemma keys_setitem_new: "k \<notin> set (map fst d) \<Longrightarrow> map fst (dict_setitem k v d) = map fst d @ [k]"
  by (induction d) auto

lemma keys_setitem:
  "map fst (dict_setitem k v d) = (if k \<in> set (map fst d) then map fst d else map fst d @ [k])"
  using keys_setitem_old [of k d v] keys_setitem_new [of k d v] by simp

lemma xml_fold:
  "\<exists>a. foldl (\<lambda>s info. xml_step info s) (c, m, []) es =
          (last_text is_code es c, last_text is_message es m, a) \<and>
        map fst a = first_occurrences (map el_tag (filter is_extra es)) \<and>
        map_of a = last_extra es"
proof (induction es rule: rev_induct)
  case Nil
  show ?case by (simp add: last_text_def last_extra_def first_occurrences_def fun_eq_iff)
next
  case (snoc x es)
  then obtain a where a:
    "foldl (\<lambda>s info. xml_step info s) (c, m, []) es =
       (last_text is_code es c, last_text is_message es m, a)"
    "map fst a = first_occurrences (map el_tag (filter is_extra es))"
    "map_of a = last_extra es" by blast
  consider "is_code x" | "is_message x" | "is_extra x"
    by (auto simp: is_extra_def)
  then show ?case
  proof cases
    case 1
    then have n: "\<not> is_message x" "\<not> is_extra x" by (simp_all add: is_message_def is_extra_def)
    have "xml_step x (last_text is_code es c, last_text is_message es m, a) =
        (text_value (el_text x), last_text is_message es m, a)"
      using 1 by (simp add: is_code_def)
    with a 1 n show ?thesis
      by (simp add: last_text_snoc last_extra_snoc fun_eq_iff)
  next
    case 2
    then have n: "\<not> is_code x" "\<not> is_extra x" by (simp_all add: is_message_def is_extra_def)
    have "xml_step x (last_text is_code es c, last_text is_message es m, a) =
        (last_text is_code es c, text_value (el_text x), a)"
      using 2 by (simp add: is_code_def is_message_def)
    with a 2 n show ?thesis
      by (simp add: last_text_snoc last_extra_snoc fun_eq_iff)
  next
    case 3
    then have n: "\<not> is_code x" "\<not> is_message x" by (simp_all add: is_extra_def)
    have step: "xml_step x (last_text is_code es c, last_text is_message es m, a) =
        (last_text is_code es c, last_text is_message es m,
         dict_setitem (el_tag x) (el_text x) a)"
      using n by (simp add: is_code_def is_message_def)
    have keys: "map fst (dict_setitem (el_tag x) (el_text x) a) =
        first_occurrences (map el_tag (filter is_extra (es @ [x])))"
      using 3 a(2)
      by (simp add: keys_setitem first_occurrences_snoc set_first_occurrences)
    have vals: "map_of (dict_setitem (el_tag x) (el_text x) a) = last_extra (es @ [x])"
      using 3 a(3) by (auto simp: map_of_setitem last_extra_snoc fun_eq_iff)
    from a(1) step keys vals n show ?thesis
      by (simp add: last_text_snoc)
  qed
qed

lemma storage_xml_facts:
  "last_text is_code (visited storage_xml_root) (header_code storage_xml) = PStr ''EntityAlreadyExists''"
  "last_text is_message (visited storage_xml_root) (PStr ''Conflict'') = PStr ''The entity exists.''"
  "first_occurrences (map el_tag (filter is_extra (visited storage_xml_root))) = [''Error'', ''Detail'']"
  "last_extra (visited storage_xml_root) ''Detail'' = Some (Some ''row 7'')"
  by code_simp+

subsection \<open>The appended lines\<close>

lemma loop_str:
  "for_loop (\<lambda>item m. py_iadd_str m (info_line item)) a (PStr x) =
     Inr (PStr (x @ concat (map info_line a)))"
  by (induction a arbitrary: x) simp_all

lemma split_on_plain: "sep \<notin> set p \<Longrightarrow> split_on sep p = [p]"
  by (induction p) auto

lemma split_on_append: "sep \<notin> set p \<Longrightarrow> split_on sep (p @ sep # r) = p # split_on sep r"
  by (induction p) auto

lemma split_on_lines:
  "sep \<notin> set p \<Longrightarrow> list_all (\<lambda>l. sep \<notin> set l) ls \<Longrightarrow>
   split_on sep (p @ concat (map (\<lambda>l. sep # l) ls)) = p # ls"
proof (induction ls arbitrary: p)
  case Nil
  then show ?case by (simp add: split_on_plain)
next
  case (Cons l ls)
  then have "split_on sep (l @ concat (map (\<lambda>l. sep # l) ls)) = l # ls" by simp
  with Cons.prems(1) show ?case by (simp add: split_on_append)
qed

lemma info_line_line_of: "info_line = (\<lambda>item. CHR 0x0A # line_of item)"
  by (simp add: info_line_def line_of_def fun_eq_iff)

lemma plain_item_line:
  assumes "plain_item item"
  shows "CHR 0x0A \<notin> set (line_of item)" and "parse_line (line_of item) = Some item"
proof -
  obtain k v where item: "item = (k, v)" by (cases item)
  with assms obtain t where v: "v = Some t" and
    k: "CHR 0x0A \<notin> set k" "CHR '':'' \<notin> set k" and t: "CHR 0x0A \<notin> set t"
    by (auto simp: plain_item_def split: option.splits)
  show "CHR 0x0A \<notin> set (line_of item)"
    using k t by (simp add: line_of_def item v)
  have nk: "\<And>x. x \<in> set k \<Longrightarrow> x \<noteq> CHR '':''"
    using k(2) by auto
  have d: "dropWhile (\<lambda>c. c \<noteq> CHR '':'') (k @ CHR '':'' # t) = CHR '':'' # t"
    by (simp add: dropWhile_append2 nk)
  have w: "takeWhile (\<lambda>c. c \<noteq> CHR '':'') (k @ CHR '':'' # t) = k"
    by (simp add: takeWhile_append2 nk)
  show "parse_line (line_of item) = Some item"
    by (simp add: parse_line_def line_of_def item v d w)
qed

lemma those_parse: "list_all plain_item a \<Longrightarrow> those (map parse_line (map line_of a)) = Some a"
  by (induction a) (simp_all add: plain_item_line)

lemma reparse_appended:
  assumes "plain c a"
  shows "reparse (appended_lines c a) = Some (code_str c, a)"
proof -
  from assms have c: "CHR 0x0A \<notin> set (''ErrorCode:'' @ code_str c)"
    by (simp add: plain_def)
  from assms have a: "list_all plain_item a" by (simp add: plain_def)
  then have ls: "list_all (\<lambda>l. CHR 0x0A \<notin> set l) (map line_of a)"
    by (simp add: list_all_iff plain_item_line)
  have "appended_lines c a =
      CHR 0x0A # ((''ErrorCode:'' @ code_str c) @ concat (map (\<lambda>l. CHR 0x0A # l) (map line_of a)))"
    by (simp add: appended_lines_def info_line_line_of comp_def)
  then have "split_on CHR 0x0A (appended_lines c a) =
      [] # (''ErrorCode:'' @ code_str c) # map line_of a"
    using split_on_lines [OF c ls] by simp
  then show ?thesis
    using those_parse [OF a] by (simp add: reparse_def)
qed

lemma plain_xml_facts:
  "decode_body plain_xml (PStr ''Bad Request'') =
     Inr (PStr ''InvalidInput'', PStr ''Bad Request'',
          [(''Error'', Some ''tables''), (''Detail'', Some ''x''), (''Hint'', Some ''y'')])"
  "decoded_code (decode_error (Some plain_xml) (PStr ''Bad Request'') None) =
     Some (Member invalid_input)"
  "plain (Member invalid_input)
     [(''Error'', Some ''tables''), (''Detail'', Some ''x''), (''Hint'', Some ''y'')]"
  "appended_lines (Member invalid_input)
     [(''Error'', Some ''tables''), (''Detail'', Some ''x''), (''Hint'', Some ''y'')] =
   [CHR 0x0A] @ ''ErrorCode:InvalidInput'' @ [CHR 0x0A] @ ''Error:tables'' @ [CHR 0x0A] @
   ''Detail:x'' @ [CHR 0x0A] @ ''Hint:y''"
  "code_str (Member invalid_input) = ''InvalidInput''"
  by code_simp+

section \<open>The claims\<close>

text \<open>
  C1. Classification by the fixed sets. When the decoded code is a string \<open>s\<close> and the
  message can be extended, \<open>_decode_error\<close> (called without an error type) returns an
  error; if \<open>s\<close> is a value of the enumeration, its kind is the documented kind of
  \<open>s\<close> and its code is the member whose value is \<open>s\<close>; if not, its kind is Generic and
  its code is the raw string \<open>s\<close>.
\<close>

theorem classification:
  assumes body: "decode_body r error_message = Inr (PStr s, m, a)"
    and add: "addable m"
  shows "\<exists>e. decode_error (Some r) error_message None = Inr e \<and>
           (if enumerated s
            then kind_of (err_type e) = documented_kind s \<and>
                 (\<exists>member. err_error_code e = Member member \<and> value_of member = s)
            else kind_of (err_type e) = Generic \<and> err_error_code e = Raw (PStr s))"
proof (cases "TableErrorCode_call (PStr s)")
  case None
  from iadd_addable [OF add] obtain m1
    where m1: "py_iadd_str m ([CHR 0x0A] @ ''ErrorCode:'' @ code_str (Raw (PStr s))) = Inr m1"
      "addable m1"
    by blast
  from loop_addable [OF m1(2)] obtain m2
    where m2: "for_loop (\<lambda>item m. py_iadd_str m (info_line item)) a m1 = Inr m2" by blast
  from call_None [OF None] have "\<not> enumerated s" .
  with body None m1 m2 show ?thesis
    by (simp add: decode_error_def)
next
  case (Some member)
  from iadd_addable [OF add] obtain m1
    where m1: "py_iadd_str m ([CHR 0x0A] @ ''ErrorCode:'' @ code_str (Member member)) = Inr m1"
      "addable m1"
    by blast
  from loop_addable [OF m1(2)] obtain m2
    where m2: "for_loop (\<lambda>item m. py_iadd_str m (info_line item)) a m1 = Inr m2" by blast
  from call_Some [OF Some] have "value_of member = s" "enumerated s" by simp_all
  with body Some m1 m2 show ?thesis
    by (simp add: decode_error_def classify_documented)
qed

theorem classification_witness:
  "(\<exists>e. decode_error (Some \<lparr>headers = Map.empty(''x-ms-error-code'' \<mapsto> ''TableNotFound''),
                           deserialized_body = DecodeError\<rparr>) (PStr ''Not found'') None = Inr e \<and>
      kind_of (err_type e) = NotFound \<and>
      (\<exists>member. err_error_code e = Member member \<and> value_of member = ''TableNotFound'')) \<and>
   (\<exists>e. decode_error (Some \<lparr>headers = Map.empty(''x-ms-error-code'' \<mapsto> ''Teapot''),
                           deserialized_body = DecodeError\<rparr>) (PStr ''Short and stout'') None = Inr e \<and>
      kind_of (err_type e) = Generic \<and> err_error_code e = Raw (PStr ''Teapot''))"
  using classification
    [of "\<lparr>headers = Map.empty(''x-ms-error-code'' \<mapsto> ''TableNotFound''),
          deserialized_body = DecodeError\<rparr>"
      "PStr ''Not found''" "''TableNotFound''" "PStr ''Not found''" "[]"]
    classification
    [of "\<lparr>headers = Map.empty(''x-ms-error-code'' \<mapsto> ''Teapot''),
          deserialized_body = DecodeError\<rparr>"
      "PStr ''Short and stout''" "''Teapot''" "PStr ''Short and stout''" "[]"]
  by (simp add: decode_body_def enumerated_def TableErrorCode_members_def documented_kind_def)

text \<open>
  C2, as amended. When the decoded message is a string, \<open>_decode_error\<close> returns an
  error whose message is that string followed by one line \<open>ErrorCode:\<close> with the
  code and one line \<open>key:value\<close> per entry of the extra data, in the order of the
  dictionary; parsing the appended lines gives back the code string and the extra data
  when they are plain.
\<close>

theorem appended_message:
  assumes "decode_body r error_message = Inr (c, PStr m, a)"
  shows "\<exists>e. decode_error (Some r) error_message error_type = Inr e \<and>
           err_additional_info e = a \<and>
           err_message e = PStr (m @ appended_lines (err_error_code e) a) \<and>
           (plain (err_error_code e) a \<longrightarrow>
              reparse (appended_lines (err_error_code e) a) = Some (code_str (err_error_code e), a))"
proof -
  obtain t c' where tc:
    "(case error_type of
        Some t \<Rightarrow> (t, Raw c)
      | None \<Rightarrow>
          (case TableErrorCode_call c of
             Some m \<Rightarrow> (classify m, Member m)
           | None \<Rightarrow> (HttpResponseError, Raw c))) = (t, c')"
    by (cases "case error_type of
        Some t \<Rightarrow> (t, Raw c)
      | None \<Rightarrow>
          (case TableErrorCode_call c of
             Some m \<Rightarrow> (classify m, Member m)
           | None \<Rightarrow> (HttpResponseError, Raw c))") 
  have "decode_error (Some r) error_message error_type =
      Inr \<lparr>err_type = t, err_message = PStr (m @ appended_lines c' a), err_response = r,
           err_error_code = c', err_additional_info = a\<rparr>"
    unfolding decode_error_def
    by (simp add: assms tc loop_str appended_lines_def)
  then show ?thesis
    by (simp add: reparse_appended)
qed

theorem appended_message_witness:
  "\<exists>e. decode_error (Some plain_xml) (PStr ''Bad Request'') None = Inr e \<and>
     err_additional_info e =
       [(''Error'', Some ''tables''), (''Detail'', Some ''x''), (''Hint'', Some ''y'')] \<and>
     err_message e =
       PStr (''Bad Request'' @ [CHR 0x0A] @ ''ErrorCode:InvalidInput'' @ [CHR 0x0A] @
             ''Error:tables'' @ [CHR 0x0A] @ ''Detail:x'' @ [CHR 0x0A] @ ''Hint:y'') \<and>
     reparse ([CHR 0x0A] @ ''ErrorCode:InvalidInput'' @ [CHR 0x0A] @ ''Error:tables'' @
              [CHR 0x0A] @ ''Detail:x'' @ [CHR 0x0A] @ ''Hint:y'') =
       Some (''InvalidInput'',
             [(''Error'', Some ''tables''), (''Detail'', Some ''x''), (''Hint'', Some ''y'')])"
proof -
  let ?a = "[(''Error'', Some ''tables''), (''Detail'', Some ''x''), (''Hint'', Some ''y'')]"
  from appended_message [OF plain_xml_facts(1), of None] obtain e
    where e: "decode_error (Some plain_xml) (PStr ''Bad Request'') None = Inr e \<and>
      err_additional_info e = ?a \<and>
      err_message e = PStr (''Bad Request'' @ appended_lines (err_error_code e) ?a) \<and>
      (plain (err_error_code e) ?a \<longrightarrow>
         reparse (appended_lines (err_error_code e) ?a) = Some (code_str (err_error_code e), ?a))" ..
  from e [THEN conjunct1] plain_xml_facts(2) have c: "err_error_code e = Member invalid_input"
    by (simp add: decoded_code_def)
  have r: "reparse (appended_lines (Member invalid_input) ?a) =
      Some (code_str (Member invalid_input), ?a)"
    using e [THEN conjunct2, THEN conjunct2, THEN conjunct2] plain_xml_facts(3)
    unfolding c by (rule mp)
  have a1: "decode_error (Some plain_xml) (PStr ''Bad Request'') None = Inr e"
    by (rule e [THEN conjunct1])
  have a2: "err_additional_info e = ?a"
    by (rule e [THEN conjunct2, THEN conjunct1])
  have a3: "err_message e =
       PStr (''Bad Request'' @ [CHR 0x0A] @ ''ErrorCode:InvalidInput'' @ [CHR 0x0A] @
             ''Error:tables'' @ [CHR 0x0A] @ ''Detail:x'' @ [CHR 0x0A] @ ''Hint:y'')"
    using e [THEN conjunct2, THEN conjunct2, THEN conjunct1]
    unfolding c plain_xml_facts(4) .
  have a4: "reparse ([CHR 0x0A] @ ''ErrorCode:InvalidInput'' @ [CHR 0x0A] @ ''Error:tables'' @
              [CHR 0x0A] @ ''Detail:x'' @ [CHR 0x0A] @ ''Hint:y'') =
       Some (''InvalidInput'', ?a)"
    using r unfolding plain_xml_facts(4) plain_xml_facts(5) .
  from a1 a2 a3 a4 show ?thesis
    by (intro exI [of _ e] conjI)
qed

text \<open>
  C2, as stated, fails: two bodies with different extra data (one entry whose value
  holds a line feed and a colon, against two entries) get the same message, so the
  appended lines do not determine the extra data; and parsing them gives the root's
  missing text back as the string \<open>None\<close>.
\<close>

theorem suffix_is_ambiguous:
  "decoded_message (decode_error (Some one_field_xml) (PStr ''Bad Request'') None) =
     Some (PStr (''Bad Request'' @ [CHR 0x0A] @ ''ErrorCode:InvalidInput'' @ [CHR 0x0A] @
                 ''Error:None'' @ [CHR 0x0A] @ ''Detail:x'' @ [CHR 0x0A] @ ''Hint:y'')) \<and>
   decoded_message (decode_error (Some two_field_xml) (PStr ''Bad Request'') None) =
     Some (PStr (''Bad Request'' @ [CHR 0x0A] @ ''ErrorCode:InvalidInput'' @ [CHR 0x0A] @
                 ''Error:None'' @ [CHR 0x0A] @ ''Detail:x'' @ [CHR 0x0A] @ ''Hint:y'')) \<and>
   decoded_info (decode_error (Some one_field_xml) (PStr ''Bad Request'') None) =
     Some [(''Error'', None), (''Detail'', Some (''x'' @ [CHR 0x0A] @ ''Hint:y''))] \<and>
   decoded_info (decode_error (Some two_field_xml) (PStr ''Bad Request'') None) =
     Some [(''Error'', None), (''Detail'', Some ''x''), (''Hint'', Some ''y'')] \<and>
   reparse ([CHR 0x0A] @ ''ErrorCode:InvalidInput'' @ [CHR 0x0A] @
            ''Error:None'' @ [CHR 0x0A] @ ''Detail:x'' @ [CHR 0x0A] @ ''Hint:y'') =
     Some (''InvalidInput'',
           [(''Error'', Some ''None''), (''Detail'', Some ''x''), (''Hint'', Some ''y'')])"
  by code_simp




text \<open>
  C4. The JSON branch with a sibling field. For an envelope that holds \<open>code\<close>,
  \<open>message.value\<close> and one more field, \<open>_decode_error\<close> does not add the field to the
  extra data: line 144 reads \<open>info.tag\<close> of the key, a string, and the call ends in an
  \<open>AttributeError\<close>.
\<close>

theorem json_sibling_raises:
  "decode_error (Some sibling_response) (PStr ''Conflict'') None = Inl AttributeError"
  by (simp add: sibling_response_def decode_error_def decode_body_def)

text \<open>
  C5. Decoding can raise. For a response without a body, called with the default
  \<open>error_message=None\<close>, line 192 adds a string to \<open>None\<close> and \<open>_decode_error\<close> ends in
  a \<open>TypeError\<close>.
\<close>

theorem decode_without_message_raises:
  "decode_error (Some empty_response) PNone None = Inl TypeError"
  by (simp add: empty_response_def decode_error_def decode_body_def TableErrorCode_members_def)

text \<open>
  C6, as amended. For an XML body the loop runs over the root element and all its
  descendants in document order, and only when the root has a child: the code is the
  text of the last visited element whose lowered tag contains \<open>code\<close> (the header's
  code when there is none), the message the text of the last one whose tag contains
  \<open>message\<close> and not \<open>code\<close> (the incoming message when there is none), and every
  other visited element is an entry of the extra data under its tag, the keys in the
  order of their first visit, each with the text of the last element of that tag.
\<close>

theorem xml_decoding:
  assumes "deserialized_body r = Deserialized (Tree root)"
  shows "\<exists>extra. decode_body r error_message =
           Inr (last_text is_code (visited root) (header_code r),
                last_text is_message (visited root) error_message, extra) \<and>
         map fst extra = first_occurrences (map el_tag (filter is_extra (visited root))) \<and>
         map_of extra = last_extra (visited root)"
proof (cases "el_children root \<noteq> []")
  case True
  from xml_fold [of "header_code r" error_message "iter root"] True assms
  show ?thesis
    by (simp add: decode_body_def visited_def header_code_def)
next
  case False
  with assms show ?thesis
    by (simp add: decode_body_def visited_def header_code_def last_text_def last_extra_def
        first_occurrences_def fun_eq_iff)
qed

theorem xml_decoding_witness:
  "\<exists>extra. decode_body storage_xml (PStr ''Conflict'') =
      Inr (PStr ''EntityAlreadyExists'', PStr ''The entity exists.'', extra) \<and>
    map fst extra = [''Error'', ''Detail''] \<and>
    map_of extra ''Detail'' = Some (Some ''row 7'')"
proof -
  have "deserialized_body storage_xml = Deserialized (Tree storage_xml_root)"
    by (simp add: storage_xml_def)
  from xml_decoding [OF this, of "PStr ''Conflict''"] obtain extra
    where e: "decode_body storage_xml (PStr ''Conflict'') =
        Inr (last_text is_code (visited storage_xml_root) (header_code storage_xml),
             last_text is_message (visited storage_xml_root) (PStr ''Conflict''), extra) \<and>
      map fst extra = first_occurrences (map el_tag (filter is_extra (visited storage_xml_root))) \<and>
      map_of extra = last_extra (visited storage_xml_root)" ..
  have a1: "decode_body storage_xml (PStr ''Conflict'') =
      Inr (PStr ''EntityAlreadyExists'', PStr ''The entity exists.'', extra)"
    using e [THEN conjunct1] unfolding storage_xml_facts .
  have a2: "map fst extra = [''Error'', ''Detail'']"
    using e [THEN conjunct2, THEN conjunct1] unfolding storage_xml_facts .
  have "map_of extra ''Detail'' = last_extra (visited storage_xml_root) ''Detail''"
    using e [THEN conjunct2, THEN conjunct2] by (rule fun_cong)
  then have a3: "map_of extra ''Detail'' = Some (Some ''row 7'')"
    unfolding storage_xml_facts .
  from a1 a2 a3 show ?thesis
    by (intro exI [of _ extra] conjI)
qed

text \<open>
  C6, as stated, fails: for a body \<open>Error\<close> with the children \<open>Code\<close> and \<open>Message\<close>,
  the second with a child \<open>Detail\<close>, the root and the grandchild both become entries
  of the extra data, where a loop over the direct children leaves it empty.
\<close>

theorem xml_root_and_descendants_counted:
  "decode_body storage_xml (PStr ''Conflict'') =
     Inr (PStr ''EntityAlreadyExists'', PStr ''The entity exists.'',
          [(''Error'', None), (''Detail'', Some ''row 7'')]) \<and>
   children_only storage_xml (PStr ''Conflict'') storage_xml_root =
     (PStr ''EntityAlreadyExists'', PStr ''The entity exists.'', [])"
  by code_simp

text \<open>
  C7. A name of 255 characters that the Cosmos pattern accepts. For the decoded error
  \<open>BadRequest\<close> / \<open>The input name is invalid.\<close> and the name of 254 letters \<open>a\<close>
  followed by a line feed, \<open>_validate_tablename_error\<close> raises nothing: the final
  \<open>$\<close> of the pattern matches before the line feed.
\<close>

theorem cosmos_255_not_refused:
  "length (replicate 254 CHR ''a'' @ [CHR 0x0A]) = 255 \<and>
   validate_tablename_error bad_request_error (replicate 254 CHR ''a'' @ [CHR 0x0A]) = Inr ()"
  by (simp add: validate_tablename_error_def branches_def branch_test_def bad_request_error_def
      validate_cosmos_tablename_def cosmos_255)

text \<open>
  C8, as amended. \<open>_extract_index\<close> never raises. It is the integer that \<open>int\<close>
  reads in the part of the message before the first colon, which is the whole message
  when there is no colon, and 0 when \<open>int\<close> refuses that part. So
  \<open>3:Entity already exists.\<close> gives 3, digits before a colon (no more than the
  interpreter's limit) give their decimal value, and a message that does not start
  with a digit, a sign or white space gives 0.
\<close>

theorem extract_index_spec:
  "(\<exists>i. extract_index message = Inr i) \<and>
   extract_index (PStr ''3:Entity already exists.'') = Inr 3 \<and>
   extract_index (PStr s) =
     Inr (case py_int (takeWhile (\<lambda>c. c \<noteq> CHR '':'') s) of None \<Rightarrow> 0 | Some i \<Rightarrow> i) \<and>
   (CHR '':'' \<notin> set u \<longrightarrow>
      extract_index (PStr u) = Inr (case py_int u of None \<Rightarrow> 0 | Some i \<Rightarrow> i)) \<and>
   (ds \<noteq> [] \<and> list_all digit ds \<and> length ds \<le> int_max_str_digits \<longrightarrow>
      extract_index (PStr (ds @ '':'' @ rest)) = Inr (int (decimal ds))) \<and>
   (t = [] \<or> \<not> (digit (hd t) \<or> hd t = CHR ''+'' \<or> hd t = CHR ''-'' \<or> int_space (hd t)) \<longrightarrow>
      extract_index (PStr t) = Inr 0)"
proof (intro conjI impI)
  show "\<exists>i. extract_index message = Inr i" by (rule extract_index_total)
  show "extract_index (PStr ''3:Entity already exists.'') = Inr 3" by code_simp
  show "extract_index (PStr s) =
     Inr (case py_int (takeWhile (\<lambda>c. c \<noteq> CHR '':'') s) of None \<Rightarrow> 0 | Some i \<Rightarrow> i)"
    by (rule extract_index_str)
next
  assume "CHR '':'' \<notin> set u"
  then have tw: "takeWhile (\<lambda>c. c \<noteq> CHR '':'') u = u"
    by (auto simp: takeWhile_eq_all_conv)
  show "extract_index (PStr u) = Inr (case py_int u of None \<Rightarrow> 0 | Some i \<Rightarrow> i)"
    by (simp only: extract_index_str tw)
next
  assume ds: "ds \<noteq> [] \<and> list_all digit ds \<and> length ds \<le> int_max_str_digits"
  then have "\<forall>c\<in>set ds. c \<noteq> CHR '':''"
    by (auto simp: list_all_iff digit_def)
  then have "takeWhile (\<lambda>c. c \<noteq> CHR '':'') (ds @ '':'' @ rest) = ds"
    by (simp add: takeWhile_append)
  with ds show "extract_index (PStr (ds @ '':'' @ rest)) = Inr (int (decimal ds))"
    by (simp add: extract_index_str py_int_digits)
next
  let ?l = "takeWhile (\<lambda>c. c \<noteq> CHR '':'') t"
  assume t: "t = [] \<or> \<not> (digit (hd t) \<or> hd t = CHR ''+'' \<or> hd t = CHR ''-'' \<or> int_space (hd t))"
  from takeWhile_hd [of "\<lambda>c. c \<noteq> CHR '':''" t] t
  have "?l = [] \<or> \<not> (digit (hd ?l) \<or> hd ?l = CHR ''+'' \<or> hd ?l = CHR ''-'' \<or> int_space (hd ?l))"
    by auto
  then have "py_int ?l = None" by (rule py_int_no_leading)
  then show "extract_index (PStr t) = Inr 0"
    by (simp add: extract_index_str)
qed

theorem extract_index_spec_witness:
  "extract_index (PStr ''42:Entity too large.'') = Inr 42 \<and>
   extract_index (PStr ''Entity too large.'') = Inr 0 \<and>
   extract_index (PStr ''7'') = Inr 7"
proof -
  have e: "\<not> (digit (hd ''Entity too large.'') \<or> hd ''Entity too large.'' = CHR ''+'' \<or>
      hd ''Entity too large.'' = CHR ''-'' \<or> int_space (hd ''Entity too large.''))"
    by code_simp
  from extract_index_spec
    [where message = PNone and s = "[]" and u = "''7''" and ds = "''42''"
       and rest = "''Entity too large.''" and t = "''Entity too large.''"]
    digits_42 decimal_42 e no_colon_7
  show ?thesis by simp
qed

text \<open>
  C8, as stated, fails: the message \<open>42\<close> has no colon, and its index is 42, not 0.
\<close>

theorem extract_index_without_colon:
  "CHR '':'' \<notin> set ''42'' \<and> extract_index (PStr ''42'') = Inr 42"
  by code_simp




text \<open>
  C10. An error object without a response. When the object has no attribute
  \<open>response\<close>, or the attribute is \<open>None\<close>, \<open>_process_table_error\<close> raises the object it
  was given, whatever the table name.
\<close>

theorem process_table_error_without_response:
  assumes "response_attr storage_error = NoAttribute \<or>
           response_attr storage_error = Attribute None"
  shows "process_table_error storage_error table_name = Raise_storage_error storage_error"
  using assms
  by (auto simp: process_table_error_def decode_error_def split: attribute.splits)

theorem process_table_error_without_response_witness:
  "process_table_error
     \<lparr>response_attr = NoAttribute, message_attr = Attribute (PStr ''Bad Request'')\<rparr>
     (Some ''my table'')
   = Raise_storage_error
       \<lparr>response_attr = NoAttribute, message_attr = Attribute (PStr ''Bad Request'')\<rparr>"
  using process_table_error_without_response
    [of "\<lparr>response_attr = NoAttribute, message_attr = Attribute (PStr ''Bad Request'')\<rparr>"
        "Some ''my table''"]
  by simp

end
